theory Spec2Isabelle
  imports Complex_Main "HOL-Library.AList" "HOL-Library.Multiset"
begin

section \<open>The quiz store of src/App.js\<close>

text \<open>
  The store is the object created by \<open>create((set, get) => ...)\<close>; its actions are
  modelled as functions from store to store. JavaScript values are modelled as follows.
  \<^item> A string is a \<open>string\<close>. The category and the sub-category of a question and the
    value of a config are compared with \<open>===\<close>, which tells \<open>undefined\<close> (also read from an
    absent field) from \<open>null\<close>: they are of the type \<open>js_string\<close>. \<open>userAnswer\<close> is \<open>null\<close>
    or a string and is an \<open>option\<close>, as is \<open>explanation\<close>, which the store never reads.
    Question ids are compared with \<open>===\<close> only and are natural numbers here.
  \<^item> Numbers are IEEE doubles in the source. Counts are natural numbers, indices and the
    requested count are integers, and the results of \<open>/\<close> and of the products with
    \<open>0.25\<close>, \<open>0.6\<close>, \<open>1.2\<close> and \<open>100\<close> are exact rationals.
  \<^item> The condition of an \<open>if\<close> and the left operand of \<open>||\<close> are tested for truthiness:
    \<open>null\<close>, \<open>undefined\<close> and the empty string are falsy, every other string is truthy.
\<close>

subsection \<open>Data\<close>

datatype js_string = Js_undefined | Js_null | Js_string string

text \<open>A record of the loaded JSON file. The field \<open>id\<close> of the source is \<open>qid\<close> here.\<close>

record bank_question =
  qid :: nat
  question :: string
  options :: "string list"
  answer :: string
  category :: js_string
  subCategory :: js_string
  explanation :: "string option"

text \<open>A question of a running quiz: \<open>{ ...q, userAnswer: null, showAnswer: false }\<close>.\<close>

record session_question = bank_question +
  userAnswer :: "string option"
  showAnswer :: bool

text \<open>A bucket of \<open>topicStats\<close>, and an entry \<open>{ topic, accuracy, ...stats }\<close> of the report.\<close>

record stats =
  correct :: nat
  total :: nat

record topic_entry = stats +
  topic :: string
  topic_accuracy :: rat

record report =
  score :: rat
  correctCount :: nat
  totalQuestions :: nat
  accuracy :: rat
  passed :: bool
  topicAnalysis :: "topic_entry list"
  answeredQuestions :: "session_question list"

record store =
  allQuestions :: "bank_question list"
  questions :: "session_question list"
  currentQuestionIndex :: int
  isTestRunning :: bool
  startTime :: nat
  finalResults :: "report option"
  testDurationMinutes :: int

text \<open>The argument of \<open>startQuiz\<close>: \<open>{ type, value, count }\<close>.\<close>

record config =
  cfg_type :: string
  cfg_value :: js_string
  cfg_count :: int

definition initial_store :: store where
  "initial_store =
     \<lparr>allQuestions = [], questions = [], currentQuestionIndex = 0, isTestRunning = False,
      startTime = 0, finalResults = None, testDurationMinutes = 0\<rparr>"

subsection \<open>JavaScript primitives the code relies on\<close>

definition js_truthy :: "string option \<Rightarrow> bool" where
  "js_truthy v = (case v of None \<Rightarrow> False | Some s \<Rightarrow> s \<noteq> [])"

definition js_truthy_value :: "js_string \<Rightarrow> bool" where
  "js_truthy_value v =
     (case v of Js_undefined \<Rightarrow> False | Js_null \<Rightarrow> False | Js_string s \<Rightarrow> s \<noteq> [])"

text \<open>\<open>xs.slice(0, n)\<close>: a negative \<open>n\<close> counts from the end of the array.\<close>

definition slice0 :: "'a list \<Rightarrow> int \<Rightarrow> 'a list" where
  "slice0 xs n = (if 0 \<le> n then take (nat n) xs else take (nat (int (length xs) + n)) xs)"

text \<open>
  \<open>topicStats\<close> is a plain object \<open>{}\<close>. Its own properties are kept in insertion order as
  an association list; a read \<open>topicStats[key]\<close> that finds no own property continues in
  \<open>Object.prototype\<close>, whose members are functions (or, for \<open>__proto__\<close>, the prototype
  itself) and therefore truthy.
\<close>

definition Object_prototype_keys :: "string list" where
  "Object_prototype_keys =
     [''constructor'', ''__defineGetter__'', ''__defineSetter__'', ''hasOwnProperty'',
      ''__lookupGetter__'', ''__lookupSetter__'', ''isPrototypeOf'', ''propertyIsEnumerable'',
      ''toString'', ''valueOf'', ''__proto__'', ''toLocaleString'']"

datatype property = Undefined | Inherited | Own stats

definition get_property :: "(string \<times> stats) list \<Rightarrow> string \<Rightarrow> property" where
  "get_property obj key =
     (case map_of obj key of
        Some b \<Rightarrow> Own b
      | None \<Rightarrow> if key \<in> set Object_prototype_keys then Inherited else Undefined)"

text \<open>
  \<open>obj[key].field++\<close> on a bucket. When \<open>obj[key]\<close> is an inherited member the increment
  lands on that member and no own property of \<open>obj\<close> changes.
\<close>

definition modify_bucket :: "string \<Rightarrow> (stats \<Rightarrow> stats) \<Rightarrow> (string \<times> stats) list \<Rightarrow> (string \<times> stats) list" where
  "modify_bucket key f obj = map (\<lambda>(k, b). if k = key then (k, f b) else (k, b)) obj"

text \<open>
  \<open>Object.entries\<close> lists the own properties whose key is an array index (a canonical
  decimal numeral below \<open>2^32 - 1\<close>) first, in ascending numeric order, and then the other
  keys in insertion order.
\<close>

definition is_digit :: "char \<Rightarrow> bool" where
  "is_digit c = (c \<in> set ''0123456789'')"

definition decimal_value :: "string \<Rightarrow> nat" where
  "decimal_value s = foldl (\<lambda>n c. 10 * n + (of_char c - 48)) 0 s"

definition is_array_index :: "string \<Rightarrow> bool" where
  "is_array_index s =
     (s \<noteq> [] \<and> list_all is_digit s \<and> (s = ''0'' \<or> hd s \<noteq> CHR ''0'') \<and>
      decimal_value s < 4294967295)"

definition Object_entries :: "(string \<times> 'v) list \<Rightarrow> (string \<times> 'v) list" where
  "Object_entries obj =
     sort_key (\<lambda>p. decimal_value (fst p)) (filter (\<lambda>p. is_array_index (fst p)) obj) @
     filter (\<lambda>p. \<not> is_array_index (fst p)) obj"

subsection \<open>calculateAnalysis\<close>

text \<open>The topic of a question: \<open>q.category || 'General'\<close>.\<close>

definition topic_of :: "'a session_question_scheme \<Rightarrow> string" where
  "topic_of q =
     (case category q of
        Js_string c \<Rightarrow> if js_truthy_value (category q) then c else ''General''
      | _ \<Rightarrow> ''General'')"

text \<open>
  The body of \<open>questions.forEach\<close>, on the three variables the loop updates:
  \<open>correctCount\<close>, \<open>incorrectCount\<close> and \<open>topicStats\<close>. A local variable whose name is
  also a field of a record above carries a prime.
\<close>

definition forEach_body :: "nat \<times> nat \<times> (string \<times> stats) list \<Rightarrow> session_question \<Rightarrow> nat \<times> nat \<times> (string \<times> stats) list" where
  "forEach_body acc q =
     (case acc of (correctCount', incorrectCount', topicStats) \<Rightarrow>
        let category' = topic_of q;
            topicStats1 =
              (if get_property topicStats category' = Undefined
               then AList.update category' \<lparr>correct = 0, total = 0\<rparr> topicStats
               else topicStats)
        in if js_truthy (userAnswer q) then
             let topicStats2 = modify_bucket category' (\<lambda>b. b\<lparr>total := total b + 1\<rparr>) topicStats1
             in if userAnswer q = Some (answer q)
                then (correctCount' + 1, incorrectCount',
                      modify_bucket category' (\<lambda>b. b\<lparr>correct := correct b + 1\<rparr>) topicStats2)
                else (correctCount', incorrectCount' + 1, topicStats2)
           else (correctCount', incorrectCount', topicStats1))"

definition topic_entry_of :: "string \<times> stats \<Rightarrow> topic_entry" where
  "topic_entry_of p =
     \<lparr>correct = correct (snd p), total = total (snd p), topic = fst p,
      topic_accuracy =
        (if total (snd p) > 0 then of_nat (correct (snd p)) / of_nat (total (snd p)) * 100 else 0)\<rparr>"

definition calculateAnalysis :: "session_question list \<Rightarrow> report" where
  "calculateAnalysis qs =
     (let totalQuestions' = length qs in
      case foldl forEach_body (0, 0, []) qs of (correctCount', incorrectCount', topicStats) \<Rightarrow>
        let score' = of_nat correctCount' - of_nat incorrectCount' * (1 / 4);
            accuracy' = (if totalQuestions' > 0
                         then of_nat correctCount' / of_nat totalQuestions' * 100 else 0);
            passed' = (if totalQuestions' > 0
                       then score' \<ge> of_nat totalQuestions' * (6 / 10) else False);
            topicAnalysis' = map topic_entry_of (Object_entries topicStats)
        in \<lparr>score = score', correctCount = correctCount', totalQuestions = totalQuestions',
            accuracy = accuracy', passed = passed', topicAnalysis = topicAnalysis',
            answeredQuestions = qs\<rparr>)"

subsection \<open>The actions of the store\<close>

definition loadQuestions :: "bank_question list \<Rightarrow> store \<Rightarrow> store" where
  "loadQuestions qs s = s\<lparr>allQuestions := qs\<rparr>"

text \<open>
  The filter of \<open>startQuiz\<close>: by \<open>category\<close>, by \<open>subCategory\<close>, or none. The comparison is
  \<open>===\<close>, the equality of \<open>js_string\<close>.
\<close>

definition filteredQuestions :: "config \<Rightarrow> bank_question list \<Rightarrow> bank_question list" where
  "filteredQuestions config allQ =
     (if cfg_type config = ''subject'' then filter (\<lambda>q. category q = cfg_value config) allQ
      else if cfg_type config = ''paper'' then filter (\<lambda>q. subCategory q = cfg_value config) allQ
      else allQ)"

definition new_session_question :: "bank_question \<Rightarrow> session_question" where
  "new_session_question q =
     \<lparr>qid = qid q, question = question q, options = options q, answer = answer q,
      category = category q, subCategory = subCategory q, explanation = explanation q,
      userAnswer = None, showAnswer = False\<rparr>"

text \<open>
  \<open>startQuiz\<close>. The order that \<open>sort(() => 0.5 - Math.random())\<close> leaves behind is the
  parameter \<open>sort_random\<close>, and \<open>Date.now()\<close> is the parameter \<open>now\<close>. \<open>sort\<close> works in
  place: when no filter applies, \<open>filteredQuestions\<close> is the array \<open>allQuestions\<close> itself,
  which is reordered with it; \<open>filter\<close> returns a fresh array.
\<close>

definition startQuiz :: "(bank_question list \<Rightarrow> bank_question list) \<Rightarrow> nat \<Rightarrow> config \<Rightarrow> store \<Rightarrow> store" where
  "startQuiz sort_random now config s =
     (let shuffled = sort_random (filteredQuestions config (allQuestions s));
          selectedQuestions = slice0 shuffled (cfg_count config);
          duration = \<lceil>(of_int (cfg_count config) :: rat) * (12 / 10)\<rceil>
      in s\<lparr>allQuestions :=
              (if cfg_type config = ''subject'' \<or> cfg_type config = ''paper''
               then allQuestions s else shuffled),
            questions := map new_session_question selectedQuestions,
            currentQuestionIndex := 0,
            isTestRunning := True,
            startTime := now,
            finalResults := None,
            testDurationMinutes := duration\<rparr>)"

definition selectAnswer :: "nat \<Rightarrow> string \<Rightarrow> store \<Rightarrow> store" where
  "selectAnswer questionId answer' s =
     s\<lparr>questions :=
         map (\<lambda>q. if qid q = questionId then q\<lparr>userAnswer := Some answer'\<rparr> else q) (questions s)\<rparr>"

definition checkAnswer :: "nat \<Rightarrow> store \<Rightarrow> store" where
  "checkAnswer questionId s =
     s\<lparr>questions :=
         map (\<lambda>q. if qid q = questionId then q\<lparr>showAnswer := True\<rparr> else q) (questions s)\<rparr>"

definition navigateToQuestion :: "int \<Rightarrow> store \<Rightarrow> store" where
  "navigateToQuestion index s =
     (if index \<ge> 0 \<and> index < int (length (questions s))
      then s\<lparr>currentQuestionIndex := index\<rparr> else s)"

definition submitTest :: "store \<Rightarrow> store" where
  "submitTest s =
     (let analysis = calculateAnalysis (questions s)
      in s\<lparr>finalResults := Some analysis, isTestRunning := False\<rparr>)"

definition reset :: "store \<Rightarrow> store" where
  "reset s =
     s\<lparr>questions := [], currentQuestionIndex := 0, isTestRunning := False, startTime := 0,
       finalResults := None, testDurationMinutes := 0, allQuestions := allQuestions s\<rparr>"

subsection \<open>The callers of the actions in the components\<close>

text \<open>
  \<open>handleSelectAnswer\<close> of \<open>QuestionCard\<close>: \<open>question\<close> is the card's question, a member of
  \<open>questions\<close>.
\<close>

definition handleSelectAnswer :: "session_question \<Rightarrow> string \<Rightarrow> store \<Rightarrow> store" where
  "handleSelectAnswer question' option' s =
     (if js_truthy (userAnswer question') then s
      else selectAnswer (qid question') option' s)"

text \<open>
  \<open>handleFileChange\<close> of \<open>HomePage\<close>. The chosen file is \<open>None\<close> when \<open>files[0]\<close> is
  undefined; \<open>parsed\<close> is the outcome of \<open>JSON.parse\<close> on its text, \<open>None\<close> when it throws.
  The state is the store with the \<open>error\<close> message of the page.
\<close>

datatype json = JArray "bank_question list" | JOther

record json_file =
  file_type :: string
  parsed :: "json option"

definition handleFileChange :: "json_file option \<Rightarrow> store \<times> string \<Rightarrow> store \<times> string" where
  "handleFileChange f st =
     (case st of (s, error') \<Rightarrow>
        (case f of
           None \<Rightarrow> (s, ''Please select a valid JSON file.'')
         | Some file' \<Rightarrow>
             if file_type file' = ''application/json'' then
               (case parsed file' of
                  None \<Rightarrow> (s, ''Error parsing JSON file.'')
                | Some (JArray parsedQuestions) \<Rightarrow>
                    if length parsedQuestions > 0
                    then (loadQuestions parsedQuestions s, [])
                    else (s, ''Invalid JSON format. Expected an array of questions.'')
                | Some JOther \<Rightarrow> (s, ''Invalid JSON format. Expected an array of questions.''))
             else (s, ''Please select a valid JSON file.'')))"

text \<open>
  The Start button of \<open>HomePage\<close>: \<open>maxQuestions\<close> of the \<open>useMemo\<close>, the button's
  \<open>disabled\<close> attribute, and \<open>handleStartQuiz\<close> with the \<open>config\<close> it builds. A click on a
  disabled button calls nothing.
\<close>

record home_page =
  quizType :: string
  selectedSubject :: js_string
  selectedPaper :: js_string
  numQuestions :: int

definition maxQuestions :: "home_page \<Rightarrow> bank_question list \<Rightarrow> nat" where
  "maxQuestions h allQ =
     (if length allQ = 0 then 0
      else if quizType h = ''subject''
        then length (filter (\<lambda>q. category q = selectedSubject h) allQ)
      else if quizType h = ''paper''
        then length (filter (\<lambda>q. subCategory q = selectedPaper h) allQ)
      else length allQ)"

definition start_disabled :: "home_page \<Rightarrow> bank_question list \<Rightarrow> bool" where
  "start_disabled h allQ = (numQuestions h = 0 \<or> maxQuestions h allQ = 0)"

definition handleStartQuiz_config :: "home_page \<Rightarrow> config" where
  "handleStartQuiz_config h =
     (if quizType h = ''subject''
        then \<lparr>cfg_type = ''subject'', cfg_value = selectedSubject h, cfg_count = numQuestions h\<rparr>
      else if quizType h = ''paper''
        then \<lparr>cfg_type = ''paper'', cfg_value = selectedPaper h, cfg_count = numQuestions h\<rparr>
      else \<lparr>cfg_type = ''all'', cfg_value = Js_null, cfg_count = numQuestions h\<rparr>)"

definition handleStartQuiz :: "(bank_question list \<Rightarrow> bank_question list) \<Rightarrow> nat \<Rightarrow> home_page \<Rightarrow> store \<Rightarrow> store" where
  "handleStartQuiz sort_random now h s =
     (let config = handleStartQuiz_config h in startQuiz sort_random now config s)"

definition click_Start :: "(bank_question list \<Rightarrow> bank_question list) \<Rightarrow> nat \<Rightarrow> home_page \<Rightarrow> store \<Rightarrow> store" where
  "click_Start sort_random now h s =
     (if start_disabled h (allQuestions s) then s else handleStartQuiz sort_random now h s)"

section \<open>Properties\<close>

subsection \<open>Vocabulary of the statements\<close>

text \<open>
  A question counts as answered in the source when its \<open>userAnswer\<close> is truthy. The
  bucket that \<open>calculateAnalysis\<close> holds for a topic after the questions \<open>qs\<close>.
\<close>

definition answered :: "session_question \<Rightarrow> bool" where
  "answered q = js_truthy (userAnswer q)"

definition answered_correctly :: "session_question \<Rightarrow> bool" where
  "answered_correctly q = (js_truthy (userAnswer q) \<and> userAnswer q = Some (answer q))"

definition answered_wrongly :: "session_question \<Rightarrow> bool" where
  "answered_wrongly q = (js_truthy (userAnswer q) \<and> userAnswer q \<noteq> Some (answer q))"

definition bucket_of :: "session_question list \<Rightarrow> string \<Rightarrow> stats" where
  "bucket_of qs k =
     \<lparr>correct = length (filter (\<lambda>q. topic_of q = k \<and> answered_correctly q) qs),
      total = length (filter (\<lambda>q. topic_of q = k \<and> answered q) qs)\<rparr>"

text \<open>
  The invariant of the \<open>forEach\<close> loop after the questions \<open>qs\<close>: the two counters, and
  the own properties of \<open>topicStats\<close>, one per topic seen so far that \<open>Object.prototype\<close>
  does not already answer for.
\<close>

definition tally_inv :: "session_question list \<Rightarrow> nat \<times> nat \<times> (string \<times> stats) list \<Rightarrow> bool" where
  "tally_inv qs acc =
     (case acc of (c, i, ts) \<Rightarrow>
        c = length (filter answered_correctly qs) \<and>
        i = length (filter answered_wrongly qs) \<and>
        distinct (map fst ts) \<and>
        (\<forall>k. map_of ts k =
           (if k \<in> topic_of ` set qs \<and> k \<notin> set Object_prototype_keys
            then Some (bucket_of qs k) else None)))"

text \<open>
  The counts as the specification words them: over the questions whose \<open>userAnswer\<close> is
  not null.
\<close>

definition spec_correctCount :: "session_question list \<Rightarrow> nat" where
  "spec_correctCount qs =
     length (filter (\<lambda>q. userAnswer q \<noteq> None \<and> userAnswer q = Some (answer q)) qs)"

definition spec_incorrectCount :: "session_question list \<Rightarrow> nat" where
  "spec_incorrectCount qs =
     length (filter (\<lambda>q. userAnswer q \<noteq> None \<and> userAnswer q \<noteq> Some (answer q)) qs)"

text \<open>
  Concrete inputs. Every example question has the options \<open>A\<close>, \<open>B\<close> and the empty string,
  and \<open>A\<close> is its answer.
\<close>

definition example_question :: "nat \<Rightarrow> js_string \<Rightarrow> string option \<Rightarrow> session_question" where
  "example_question i c u =
     \<lparr>qid = i, question = ''Q'', options = [''A'', ''B'', ''''], answer = ''A'', category = c,
      subCategory = Js_undefined, explanation = None, userAnswer = u, showAnswer = False\<rparr>"

definition ten_questions :: "session_question list" where
  "ten_questions =
     map (\<lambda>i. example_question i (Js_string ''Options'') (Some ''A'')) [1, 2, 3, 4, 5, 6] @
     map (\<lambda>i. example_question i (Js_string ''Futures'') (Some ''B'')) [7, 8] @
     map (\<lambda>i. example_question i Js_undefined None) [9, 10]"

definition options_questions :: "session_question list" where
  "options_questions =
     [example_question 1 (Js_string ''Options'') (Some ''A''),
      example_question 2 (Js_string ''Options'') (Some ''B''),
      example_question 3 (Js_string ''Options'') None]"

definition uncategorised_questions :: "session_question list" where
  "uncategorised_questions =
     [example_question 1 Js_undefined (Some ''A''),
      example_question 2 (Js_string '''') (Some ''B''),
      example_question 3 (Js_string ''Futures'') (Some ''A'')]"

text \<open>
  The states of the store that the actions can reach from the initial one, and the
  invariant of \<open>currentQuestionIndex\<close> in them.
\<close>

inductive reachable :: "store \<Rightarrow> bool" where
  init: "reachable initial_store"
| load: "reachable s \<Longrightarrow> reachable (loadQuestions qs s)"
| start: "reachable s \<Longrightarrow> reachable (startQuiz sort_random now config s)"
| select: "reachable s \<Longrightarrow> reachable (selectAnswer questionId answer' s)"
| check: "reachable s \<Longrightarrow> reachable (checkAnswer questionId s)"
| navigate: "reachable s \<Longrightarrow> reachable (navigateToQuestion index s)"
| submit: "reachable s \<Longrightarrow> reachable (submitTest s)"
| reset: "reachable s \<Longrightarrow> reachable (reset s)"

definition index_ok :: "store \<Rightarrow> bool" where
  "index_ok s =
     (0 \<le> currentQuestionIndex s \<and>
      (currentQuestionIndex s < int (length (questions s)) \<or> currentQuestionIndex s = 0))"

text \<open>
  Concrete banks, configs, pages and sessions. Three of the five questions of
  \<open>example_bank\<close> have the category \<open>Options\<close> and none has the category \<open>Bonds\<close>.
\<close>

definition example_bank_question :: "nat \<Rightarrow> js_string \<Rightarrow> js_string \<Rightarrow> bank_question" where
  "example_bank_question i c p =
     \<lparr>qid = i, question = ''Q'', options = [''A'', ''B'', ''''], answer = ''A'', category = c,
      subCategory = p, explanation = None\<rparr>"

definition all_config :: "int \<Rightarrow> config" where
  "all_config n = \<lparr>cfg_type = ''all'', cfg_value = Js_null, cfg_count = n\<rparr>"

definition one_question_session :: store where
  "one_question_session =
     startQuiz (\<lambda>xs. xs) 0 (all_config 5)
       (loadQuestions [example_bank_question 1 (Js_string ''Options'') Js_undefined] initial_store)"

definition example_bank :: "bank_question list" where
  "example_bank =
     [example_bank_question 1 (Js_string ''Options'') (Js_string ''Paper 1''),
      example_bank_question 2 (Js_string ''Futures'') (Js_string ''Paper 1''),
      example_bank_question 3 (Js_string ''Options'') (Js_string ''Paper 2''),
      example_bank_question 4 (Js_string ''Options'') Js_undefined,
      example_bank_question 5 (Js_string ''Swaps'') (Js_string ''Paper 2'')]"

definition subject_config :: "string \<Rightarrow> int \<Rightarrow> config" where
  "subject_config subject n = \<lparr>cfg_type = ''subject'', cfg_value = Js_string subject, cfg_count = n\<rparr>"

definition options_session :: store where
  "options_session =
     startQuiz rev 1000 (subject_config ''Options'' 5) (loadQuestions example_bank initial_store)"

definition bonds_page :: home_page where
  "bonds_page =
     \<lparr>quizType = ''subject'', selectedSubject = Js_string ''Bonds'', selectedPaper = Js_string '''',
      numQuestions = 5\<rparr>"

text \<open>
  A record of the bank is well formed, in the words of the specification, when its options
  are not empty and contain its answer; a corpus is valid when it is a non-empty list of
  well-formed records.
\<close>

definition well_formed :: "bank_question \<Rightarrow> bool" where
  "well_formed q = (options q \<noteq> [] \<and> answer q \<in> set (options q))"

definition valid_corpus :: "bank_question list \<Rightarrow> bool" where
  "valid_corpus qs = (qs \<noteq> [] \<and> list_all well_formed qs)"

text \<open>A JSON file whose text parses to the array \<open>qs\<close>, and a record with no options.\<close>

definition json_upload :: "bank_question list \<Rightarrow> json_file option" where
  "json_upload qs = Some \<lparr>file_type = ''application/json'', parsed = Some (JArray qs)\<rparr>"

definition malformed_question :: bank_question where
  "malformed_question =
     \<lparr>qid = 7, question = ''Q'', options = [], answer = ''A'', category = Js_undefined,
      subCategory = Js_undefined, explanation = None\<rparr>"

definition the_question :: session_question where
  "the_question = new_session_question (example_bank_question 1 (Js_string ''Options'') Js_undefined)"

subsection \<open>The loop of calculateAnalysis\<close>

lemma map_of_modify_bucket:
  "map_of (modify_bucket k f obj) x =
     (if x = k then map_option f (map_of obj k) else map_of obj x)"
  by (induction obj) (auto simp: modify_bucket_def)

lemma keys_modify_bucket: "map fst (modify_bucket k f obj) = map fst obj"
  by (induction obj) (auto simp: modify_bucket_def)

lemma get_property_Undefined:
  "get_property obj k = Undefined \<longleftrightarrow> map_of obj k = None \<and> k \<notin> set Object_prototype_keys"
  by (simp add: get_property_def split: option.splits)

lemma bucket_of_snoc:
  "bucket_of (qs @ [q]) k =
     (if topic_of q = k \<and> answered q
      then (if answered_correctly q
            then \<lparr>correct = correct (bucket_of qs k) + 1, total = total (bucket_of qs k) + 1\<rparr>
            else \<lparr>correct = correct (bucket_of qs k), total = total (bucket_of qs k) + 1\<rparr>)
      else bucket_of qs k)"
  by (auto simp: bucket_of_def answered_correctly_def answered_def)

lemma bucket_of_unseen:
  "k \<notin> topic_of ` set qs \<Longrightarrow> bucket_of qs k = \<lparr>correct = 0, total = 0\<rparr>"
  by (auto simp: bucket_of_def filter_empty_conv)

lemma tally_inv_step:
  assumes "tally_inv qs acc"
  shows "tally_inv (qs @ [q]) (forEach_body acc q)"
proof -
  obtain c i ts where acc: "acc = (c, i, ts)" by (cases acc)
  from assms acc have c: "c = length (filter answered_correctly qs)"
    and i: "i = length (filter answered_wrongly qs)"
    and d: "distinct (map fst ts)"
    and m: "\<And>k. map_of ts k =
           (if k \<in> topic_of ` set qs \<and> k \<notin> set Object_prototype_keys
            then Some (bucket_of qs k) else None)"
    by (simp_all add: tally_inv_def)
  define k0 where "k0 = topic_of q"
  define ts1 where "ts1 = (if get_property ts k0 = Undefined
               then AList.update k0 \<lparr>correct = 0, total = 0\<rparr> ts else ts)"
  have d1: "distinct (map fst ts1)"
    using d by (simp add: ts1_def distinct_update)
  have m1: "map_of ts1 k =
           (if k \<in> topic_of ` set (qs @ [q]) \<and> k \<notin> set Object_prototype_keys
            then Some (bucket_of qs k) else None)" for k
    using m[of k] m[of k0] bucket_of_unseen[of k0 qs]
    by (auto simp: ts1_def get_property_Undefined update_conv k0_def split: if_splits)
  show ?thesis
  proof (cases "js_truthy (userAnswer q)")
    case False
    then have "forEach_body acc q = (c, i, ts1)"
      by (simp add: forEach_body_def acc ts1_def k0_def Let_def)
    moreover have "bucket_of (qs @ [q]) k = bucket_of qs k" for k
      using False by (simp add: bucket_of_snoc answered_def)
    ultimately show ?thesis
      using False c i d1 m1
      by (simp add: tally_inv_def answered_correctly_def answered_wrongly_def)
  next
    case True
    show ?thesis
    proof (cases "userAnswer q = Some (answer q)")
      case corr: True
      have "forEach_body acc q =
          (c + 1, i, modify_bucket k0 (\<lambda>b. b\<lparr>correct := correct b + 1\<rparr>)
                      (modify_bucket k0 (\<lambda>b. b\<lparr>total := total b + 1\<rparr>) ts1))"
        using True corr by (simp add: forEach_body_def acc ts1_def k0_def Let_def)
      then show ?thesis
        using True corr c i d1 m1
        by (auto simp: tally_inv_def answered_correctly_def answered_wrongly_def answered_def
              keys_modify_bucket map_of_modify_bucket bucket_of_snoc k0_def)
    next
      case wrong: False
      have "forEach_body acc q =
          (c, i + 1, modify_bucket k0 (\<lambda>b. b\<lparr>total := total b + 1\<rparr>) ts1)"
        using True wrong by (simp add: forEach_body_def acc ts1_def k0_def Let_def)
      then show ?thesis
        using True wrong c i d1 m1
        by (auto simp: tally_inv_def answered_correctly_def answered_wrongly_def answered_def
              keys_modify_bucket map_of_modify_bucket bucket_of_snoc k0_def)
    qed
  qed
qed

lemma tally_inv_foldl: "tally_inv qs (foldl forEach_body (0, 0, []) qs)"
proof (induction qs rule: rev_induct)
  case Nil
  show ?case by (simp add: tally_inv_def)
next
  case (snoc q qs)
  then show ?case by (simp add: tally_inv_step)
qed

lemma foldl_forEach_counts:
  "fst (foldl forEach_body (0, 0, []) qs) = length (filter answered_correctly qs) \<and>
   fst (snd (foldl forEach_body (0, 0, []) qs)) = length (filter answered_wrongly qs)"
  using tally_inv_foldl[of qs] by (auto simp: tally_inv_def split: prod.splits)

lemma calculateAnalysis_fields:
  "correctCount (calculateAnalysis qs) = length (filter answered_correctly qs)"
  "totalQuestions (calculateAnalysis qs) = length qs"
  "score (calculateAnalysis qs) =
     of_nat (length (filter answered_correctly qs)) -
     of_nat (length (filter answered_wrongly qs)) * (1 / 4)"
  "accuracy (calculateAnalysis qs) =
     (if length qs > 0
      then of_nat (length (filter answered_correctly qs)) / of_nat (length qs) * 100 else 0)"
  "passed (calculateAnalysis qs) =
     (if length qs > 0
      then score (calculateAnalysis qs) \<ge> of_nat (length qs) * (6 / 10) else False)"
  "answeredQuestions (calculateAnalysis qs) = qs"
  using foldl_forEach_counts[of qs]
  by (auto simp: calculateAnalysis_def Let_def split: prod.splits)

subsection \<open>Score, accuracy and pass mark\<close>

text \<open>
  Claim C1, as the code has it. For every list of session questions the report has
  \<open>score = correctCount - 0.25 * incorrectCount\<close>,
  \<open>accuracy = correctCount / totalQuestions * 100\<close> (0 for no questions) and
  \<open>passed = (score >= totalQuestions * 0.6)\<close> (false for no questions), where the two
  counts range over the questions whose \<open>userAnswer\<close> is truthy, that is neither null nor
  the empty string. Ten questions with 6 correct, 2 incorrect and 2 unanswered give
  score 5.5, accuracy 60 and passed false.
\<close>

theorem calculateAnalysis_score:
  "(let r = calculateAnalysis qs;
        c = length (filter answered_correctly qs);
        w = length (filter answered_wrongly qs);
        n = length qs
    in correctCount r = c \<and> totalQuestions r = n \<and>
       score r = of_nat c - (1 / 4) * of_nat w \<and>
       accuracy r = (if n = 0 then 0 else of_nat c / of_nat n * 100) \<and>
       passed r = (if n = 0 then False else score r \<ge> of_nat n * (6 / 10)) \<and>
       (n = 10 \<and> c = 6 \<and> w = 2 \<longrightarrow> score r = 11 / 2 \<and> accuracy r = 60 \<and> \<not> passed r))"
proof -
  let ?r = "calculateAnalysis qs"
  let ?c = "length (filter answered_correctly qs)"
  let ?w = "length (filter answered_wrongly qs)"
  let ?n = "length qs"
  obtain c w ts where loop: "foldl forEach_body (0, 0, []) qs = (c, w, ts)"
    by (cases "foldl forEach_body (0, 0, []) qs")
  with tally_inv_foldl[of qs] have cw: "c = ?c" "w = ?w"
    by (simp_all add: tally_inv_def)
  have fields: "correctCount ?r = ?c" "totalQuestions ?r = ?n"
    "score ?r = of_nat ?c - (1 / 4) * of_nat ?w"
    "accuracy ?r = (if ?n = 0 then 0 else of_nat ?c / of_nat ?n * 100)"
    "passed ?r = (if ?n = 0 then False else score ?r \<ge> of_nat ?n * (6 / 10))"
    using loop cw by (simp_all add: calculateAnalysis_def Let_def)
  have "score ?r = 11 / 2 \<and> accuracy ?r = 60 \<and> \<not> passed ?r"
    if "?n = 10" and "?c = 6" and "?w = 2"
    using that by (simp add: fields)
  with fields show ?thesis
    unfolding Let_def by blast
qed

lemma ten_questions_counts:
  "length ten_questions = 10"
  "length (filter answered_correctly ten_questions) = 6"
  "length (filter answered_wrongly ten_questions) = 2"
  "length (filter (\<lambda>q. userAnswer q = None) ten_questions) = 2"
  by (simp_all add: ten_questions_def example_question_def answered_correctly_def
        answered_wrongly_def js_truthy_def)

theorem calculateAnalysis_score_witness:
  "length ten_questions = 10 \<and>
   length (filter answered_correctly ten_questions) = 6 \<and>
   length (filter answered_wrongly ten_questions) = 2 \<and>
   length (filter (\<lambda>q. userAnswer q = None) ten_questions) = 2 \<and>
   score (calculateAnalysis ten_questions) = 11 / 2 \<and>
   accuracy (calculateAnalysis ten_questions) = 60 \<and>
   \<not> passed (calculateAnalysis ten_questions)"
  using calculateAnalysis_score[of ten_questions] ten_questions_counts
  by (simp add: Let_def)

text \<open>
  With the counts taken over the questions whose \<open>userAnswer\<close> is not null, the formula
  fails: a question answered with its empty option has a non-null, wrong \<open>userAnswer\<close>,
  which \<open>if (q.userAnswer)\<close> skips. The code scores it 0, the formula \<open>-0.25\<close>.
\<close>

theorem calculateAnalysis_score_counterexample:
  "userAnswer (example_question 1 Js_undefined (Some '''')) \<noteq> None \<and>
   score (calculateAnalysis [example_question 1 Js_undefined (Some '''')]) = 0 \<and>
   of_nat (spec_correctCount [example_question 1 Js_undefined (Some '''')]) -
     (1 / 4) * of_nat (spec_incorrectCount [example_question 1 Js_undefined (Some '''')]) = (- 1 / 4 :: rat)"
  by (simp add: calculateAnalysis_fields spec_correctCount_def spec_incorrectCount_def
        example_question_def answered_correctly_def answered_wrongly_def js_truthy_def)

text \<open>
  The empty answer is the only difference: when no \<open>userAnswer\<close> is the empty string the
  score is the formula over the questions whose \<open>userAnswer\<close> is not null.
\<close>

lemma calculateAnalysis_score_no_empty_answer:
  assumes "\<forall>q \<in> set qs. userAnswer q \<noteq> Some []"
  shows "score (calculateAnalysis qs) =
           of_nat (spec_correctCount qs) - (1 / 4) * of_nat (spec_incorrectCount qs)"
proof -
  have "filter answered_correctly qs =
        filter (\<lambda>q. userAnswer q \<noteq> None \<and> userAnswer q = Some (answer q)) qs"
    using assms
    by (intro filter_cong refl) (auto simp: answered_correctly_def js_truthy_def split: option.splits)
  moreover have "filter answered_wrongly qs =
        filter (\<lambda>q. userAnswer q \<noteq> None \<and> userAnswer q \<noteq> Some (answer q)) qs"
    using assms
    by (intro filter_cong refl) (auto simp: answered_wrongly_def js_truthy_def split: option.splits)
  ultimately show ?thesis
    by (simp add: calculateAnalysis_fields spec_correctCount_def spec_incorrectCount_def)
qed

subsection \<open>The topic breakdown\<close>

lemma Object_entries_set: "set (Object_entries obj) = set obj"
  by (auto simp: Object_entries_def)

lemma Object_entries_distinct:
  assumes "distinct (map fst obj)"
  shows "distinct (map fst (Object_entries obj))"
proof -
  from assms have d: "distinct obj" and inj: "inj_on fst (set obj)"
    by (simp_all add: distinct_map)
  have "distinct (Object_entries obj)"
    using d by (auto simp: Object_entries_def)
  with inj show ?thesis
    by (simp add: distinct_map Object_entries_set)
qed

lemma topic_of_entry: "topic (topic_entry_of p) = fst p"
  by (simp add: topic_entry_of_def)

lemma topicAnalysis_topics:
  "distinct (map topic (topicAnalysis (calculateAnalysis qs))) \<and>
   set (topicAnalysis (calculateAnalysis qs)) =
     (\<lambda>k. topic_entry_of (k, bucket_of qs k)) ` (topic_of ` set qs - set Object_prototype_keys)"
proof -
  obtain c i ts where f: "foldl forEach_body (0, 0, []) qs = (c, i, ts)"
    by (cases "foldl forEach_body (0, 0, []) qs")
  with tally_inv_foldl[of qs] have d: "distinct (map fst ts)"
    and m: "\<And>k. map_of ts k =
           (if k \<in> topic_of ` set qs \<and> k \<notin> set Object_prototype_keys
            then Some (bucket_of qs k) else None)"
    by (simp_all add: tally_inv_def)
  have ta: "topicAnalysis (calculateAnalysis qs) = map topic_entry_of (Object_entries ts)"
    using f by (simp add: calculateAnalysis_def Let_def)
  have "map topic (map topic_entry_of (Object_entries ts)) = map fst (Object_entries ts)"
    by (simp add: topic_of_entry comp_def)
  with d have 1: "distinct (map topic (topicAnalysis (calculateAnalysis qs)))"
    by (simp add: ta Object_entries_distinct del: map_map)
  have mem: "(k, b) \<in> set ts \<longleftrightarrow>
      k \<in> topic_of ` set qs - set Object_prototype_keys \<and> b = bucket_of qs k" for k b
    using map_of_eq_Some_iff[OF d, of k b] m[of k] by (auto split: if_splits)
  have "set ts = (\<lambda>k. (k, bucket_of qs k)) ` (topic_of ` set qs - set Object_prototype_keys)"
    using mem by (auto simp: image_iff)
  then have 2: "set (topicAnalysis (calculateAnalysis qs)) =
     (\<lambda>k. topic_entry_of (k, bucket_of qs k)) ` (topic_of ` set qs - set Object_prototype_keys)"
    by (simp add: ta Object_entries_set image_image)
  from 1 2 show ?thesis by simp
qed

lemma topic_entry_fields:
  "topic (topic_entry_of (k, bucket_of qs k)) = k"
  "total (topic_entry_of (k, bucket_of qs k)) = length (filter (\<lambda>q. topic_of q = k \<and> answered q) qs)"
  "correct (topic_entry_of (k, bucket_of qs k)) =
     length (filter (\<lambda>q. topic_of q = k \<and> answered_correctly q) qs)"
  by (simp_all add: topic_entry_of_def bucket_of_def)

text \<open>
  Claim C3, as the code has it. \<open>topicAnalysis\<close> has exactly one entry per topic observed
  among all the questions, answered or not (the topic of a question is its category, or
  \<open>General\<close>), except for a topic that names a member of \<open>Object.prototype\<close>, which gets
  none. The \<open>total\<close> of an entry is the number of answered questions of its topic and
  \<open>correct\<close> the number of those answered correctly, so an unanswered question adds to no
  bucket, and a topic with unanswered questions only has an entry with \<open>total = 0\<close> and
  accuracy 0.
\<close>

theorem topicAnalysis_buckets:
  "(let ta = topicAnalysis (calculateAnalysis qs) in
     distinct (map topic ta) \<and>
     set (map topic ta) = topic_of ` set qs - set Object_prototype_keys \<and>
     (\<forall>e \<in> set ta.
        total e = length (filter (\<lambda>q. topic_of q = topic e \<and> js_truthy (userAnswer q)) qs) \<and>
        correct e = length (filter (\<lambda>q. topic_of q = topic e \<and> js_truthy (userAnswer q) \<and>
                                       userAnswer q = Some (answer q)) qs) \<and>
        topic_accuracy e =
          (if total e > 0 then of_nat (correct e) / of_nat (total e) * 100 else 0)))"
proof -
  let ?ta = "topicAnalysis (calculateAnalysis qs)"
  let ?K = "topic_of ` set qs - set Object_prototype_keys"
  from topicAnalysis_topics[of qs] have d: "distinct (map topic ?ta)"
    and s: "set ?ta = (\<lambda>k. topic_entry_of (k, bucket_of qs k)) ` ?K"
    by simp_all
  have "set (map topic ?ta) = ?K"
    using s by (simp add: image_image topic_entry_fields)
  moreover have "total e = length (filter (\<lambda>q. topic_of q = topic e \<and> js_truthy (userAnswer q)) qs) \<and>
        correct e = length (filter (\<lambda>q. topic_of q = topic e \<and> js_truthy (userAnswer q) \<and>
                                       userAnswer q = Some (answer q)) qs) \<and>
        topic_accuracy e =
          (if total e > 0 then of_nat (correct e) / of_nat (total e) * 100 else 0)"
    if "e \<in> set ?ta" for e
  proof -
    from that s obtain k where e: "e = topic_entry_of (k, bucket_of qs k)" by auto
    show ?thesis
      unfolding e by (simp add: topic_entry_of_def bucket_of_def answered_def answered_correctly_def)
  qed
  ultimately show ?thesis using d by (simp add: Let_def)
qed

theorem topicAnalysis_buckets_witness:
  "\<lparr>correct = 1, total = 2, topic = ''Options'', topic_accuracy = 50\<rparr>
     \<in> set (topicAnalysis (calculateAnalysis options_questions)) \<and>
   set (map topic (topicAnalysis (calculateAnalysis options_questions))) = {''Options''} \<and>
   length (filter (\<lambda>q. topic_of q = ''Options'' \<and> js_truthy (userAnswer q)) options_questions) = 2"
proof -
  let ?ta = "topicAnalysis (calculateAnalysis options_questions)"
  let ?e = "\<lparr>correct = 1, total = 2, topic = ''Options'', topic_accuracy = 50\<rparr>"
  have mem: "?e \<in> set ?ta"
    by code_simp
  have topics: "topic_of ` set options_questions - set Object_prototype_keys = {''Options''}"
    by (auto simp: options_questions_def example_question_def topic_of_def js_truthy_value_def
          Object_prototype_keys_def)
  from topicAnalysis_buckets[of options_questions]
  have A: "set (map topic ?ta) = topic_of ` set options_questions - set Object_prototype_keys"
    and B: "\<forall>e \<in> set ?ta.
        total e = length (filter (\<lambda>q. topic_of q = topic e \<and> js_truthy (userAnswer q))
                    options_questions)"
    by (simp_all add: Let_def)
  from B mem have "total ?e = length (filter (\<lambda>q. topic_of q = topic ?e \<and> js_truthy (userAnswer q))
                    options_questions)"
    by blast
  then have C: "length (filter (\<lambda>q. topic_of q = ''Options'' \<and> js_truthy (userAnswer q))
                    options_questions) = 2"
    by simp
  from mem A topics C show ?thesis by simp
qed

text \<open>
  The claim as worded fails: the bucket is created before \<open>userAnswer\<close> is looked at, so a
  topic whose only question is unanswered has an entry, with \<open>total = 0\<close>.
\<close>

theorem topicAnalysis_buckets_counterexample:
  "userAnswer (example_question 1 (Js_string ''Options'') None) = None \<and>
   topicAnalysis (calculateAnalysis [example_question 1 (Js_string ''Options'') None]) =
     [\<lparr>correct = 0, total = 0, topic = ''Options'', topic_accuracy = 0\<rparr>]"
  by code_simp

subsection \<open>Questions without a category\<close>

lemma topic_of_General:
  "topic_of q = ''General'' \<longleftrightarrow>
     category q = Js_undefined \<or> category q = Js_null \<or> category q = Js_string '''' \<or>
     category q = Js_string ''General''"
  by (auto simp: topic_of_def js_truthy_value_def split: js_string.splits)

lemma General_not_inherited: "''General'' \<notin> set Object_prototype_keys"
  by (simp add: Object_prototype_keys_def)

text \<open>
  Claim C10. When some question has no category (absent or null) or the empty category,
  \<open>topicAnalysis\<close> has an entry for the topic \<open>General\<close>, whose \<open>total\<close> and \<open>correct\<close> count the
  answered questions whose category is absent, null, empty or \<open>General\<close>: the question is neither dropped
  nor an error, and when it is answered the entry has \<open>total >= 1\<close>.
\<close>

theorem missing_category_General:
  assumes "q \<in> set qs" and "category q = Js_undefined \<or> category q = Js_null \<or> category q = Js_string ''''"
  shows "\<exists>e \<in> set (topicAnalysis (calculateAnalysis qs)).
           topic e = ''General'' \<and>
           total e = length (filter (\<lambda>q'.
                      (category q' = Js_undefined \<or> category q' = Js_null \<or>
                       category q' = Js_string '''' \<or> category q' = Js_string ''General'') \<and> js_truthy (userAnswer q')) qs) \<and>
           correct e = length (filter (\<lambda>q'.
                      (category q' = Js_undefined \<or> category q' = Js_null \<or>
                       category q' = Js_string '''' \<or> category q' = Js_string ''General'') \<and> js_truthy (userAnswer q') \<and>
                      userAnswer q' = Some (answer q')) qs) \<and>
           (js_truthy (userAnswer q) \<longrightarrow> total e \<ge> 1)"
proof -
  let ?e = "topic_entry_of (''General'', bucket_of qs ''General'')"
  from assms(2) have tq: "topic_of q = ''General''"
    unfolding topic_of_General by blast
  from assms(1) have "topic_of q \<in> topic_of ` set qs"
    by (rule imageI)
  then have "''General'' \<in> topic_of ` set qs"
    by (simp only: tq)
  with General_not_inherited
  have "''General'' \<in> topic_of ` set qs - set Object_prototype_keys"
    by (simp only: Diff_iff simp_thms)
  then have "?e \<in> (\<lambda>k. topic_entry_of (k, bucket_of qs k)) `
               (topic_of ` set qs - set Object_prototype_keys)"
    by (rule imageI)
  with topicAnalysis_topics[of qs] have mem: "?e \<in> set (topicAnalysis (calculateAnalysis qs))"
    by simp
  have top: "topic ?e = ''General''"
    by (simp only: topic_entry_fields)
  have t: "total ?e = length (filter (\<lambda>q'.
                      (category q' = Js_undefined \<or> category q' = Js_null \<or>
                       category q' = Js_string '''' \<or> category q' = Js_string ''General'') \<and> js_truthy (userAnswer q')) qs)"
    by (simp only: topic_entry_fields topic_of_General answered_def)
  have c: "correct ?e = length (filter (\<lambda>q'.
                      (category q' = Js_undefined \<or> category q' = Js_null \<or>
                       category q' = Js_string '''' \<or> category q' = Js_string ''General'') \<and> js_truthy (userAnswer q') \<and>
                      userAnswer q' = Some (answer q')) qs)"
    by (simp only: topic_entry_fields topic_of_General answered_correctly_def)
  have pos: "js_truthy (userAnswer q) \<longrightarrow> total ?e \<ge> 1"
  proof
    assume "js_truthy (userAnswer q)"
    with tq assms(1) have "q \<in> set (filter (\<lambda>q. topic_of q = ''General'' \<and> answered q) qs)"
      by (simp add: answered_def)
    then have "0 < length (filter (\<lambda>q. topic_of q = ''General'' \<and> answered q) qs)"
      by (rule length_pos_if_in_set)
    then have "1 \<le> length (filter (\<lambda>q. topic_of q = ''General'' \<and> answered q) qs)"
      by arith
    then show "total ?e \<ge> 1" by (simp only: topic_entry_fields)
  qed
  from top t c pos show ?thesis
    by (intro bexI[OF _ mem] conjI)
qed

theorem missing_category_General_witness:
  "\<exists>e \<in> set (topicAnalysis (calculateAnalysis uncategorised_questions)).
      topic e = ''General'' \<and> total e = 2 \<and> correct e = 1"
proof -
  have q: "example_question 1 Js_undefined (Some ''A'') \<in> set uncategorised_questions"
    by (simp add: uncategorised_questions_def)
  have c: "category (example_question 1 Js_undefined (Some ''A'')) = Js_undefined \<or>
           category (example_question 1 Js_undefined (Some ''A'')) = Js_null \<or>
           category (example_question 1 Js_undefined (Some ''A'')) = Js_string ''''"
    by (simp add: example_question_def)
  have n: "length (filter (\<lambda>q'.
                      (category q' = Js_undefined \<or> category q' = Js_null \<or>
                       category q' = Js_string '''' \<or> category q' = Js_string ''General'') \<and> js_truthy (userAnswer q'))
             uncategorised_questions) = 2"
     "length (filter (\<lambda>q'.
                      (category q' = Js_undefined \<or> category q' = Js_null \<or>
                       category q' = Js_string '''' \<or> category q' = Js_string ''General'') \<and> js_truthy (userAnswer q') \<and>
                      userAnswer q' = Some (answer q')) uncategorised_questions) = 1"
    by (simp_all add: uncategorised_questions_def example_question_def js_truthy_def)
  from missing_category_General[OF q c] show ?thesis
    unfolding n by blast
qed

subsection \<open>Starting a quiz\<close>

lemma slice0_nonneg: "0 \<le> n \<Longrightarrow> slice0 xs n = take (nat n) xs"
  by (simp add: slice0_def)

lemma new_session_question_content:
  "\<lparr>qid = qid (new_session_question b), question = question (new_session_question b),
    options = options (new_session_question b), answer = answer (new_session_question b),
    category = category (new_session_question b),
    subCategory = subCategory (new_session_question b),
    explanation = explanation (new_session_question b)\<rparr> = b"
  "userAnswer (new_session_question b) = None"
  "showAnswer (new_session_question b) = False"
  by (simp_all add: new_session_question_def)

text \<open>
  \<open>===\<close> tells \<open>null\<close> from \<open>undefined\<close>: the value \<open>null\<close> selects the questions whose
  category is \<open>null\<close> and not those that have no category.
\<close>

lemma filteredQuestions_null_value:
  "filteredQuestions \<lparr>cfg_type = ''subject'', cfg_value = Js_null, cfg_count = 5\<rparr>
     [example_bank_question 1 Js_undefined Js_undefined,
      example_bank_question 2 Js_null Js_undefined,
      example_bank_question 3 (Js_string ''Options'') Js_undefined] =
   [example_bank_question 2 Js_null Js_undefined]"
  by (simp add: filteredQuestions_def example_bank_question_def)

text \<open>
  Claim C7. For a config with a count that is not negative, and a sort that permutes the
  filtered questions, \<open>startQuiz\<close> assigns \<open>min(count, filtered.length)\<close> questions, where
  the filter keeps the questions whose \<open>category\<close> is the value for type \<open>subject\<close>, those
  whose \<open>subCategory\<close> is the value for type \<open>paper\<close>, and all of them otherwise. The
  questions assigned are the first ones of the shuffled filtered list, in that order:
  each has the id, text, options, answer, category, sub-category and explanation of its
  bank question, with \<open>userAnswer = null\<close> and \<open>showAnswer = false\<close>.
  \<open>testDurationMinutes\<close> is \<open>ceil(count * 1.2)\<close>, from the requested count and not from the
  number of questions assigned.
\<close>

theorem startQuiz_sample:
  assumes "0 \<le> cfg_count config"
    and "mset (sort_random (filteredQuestions config (allQuestions s))) =
         mset (filteredQuestions config (allQuestions s))"
  shows "(let s' = startQuiz sort_random now config s;
              filtered = filteredQuestions config (allQuestions s)
          in (cfg_type config = ''subject'' \<longrightarrow>
                filtered = filter (\<lambda>q. category q = cfg_value config) (allQuestions s)) \<and>
             (cfg_type config = ''paper'' \<longrightarrow>
                filtered = filter (\<lambda>q. subCategory q = cfg_value config) (allQuestions s)) \<and>
             (cfg_type config \<noteq> ''subject'' \<and> cfg_type config \<noteq> ''paper'' \<longrightarrow>
                filtered = allQuestions s) \<and>
             questions s' =
               map new_session_question (take (nat (cfg_count config)) (sort_random filtered)) \<and>
             map (\<lambda>q. \<lparr>qid = qid q, question = question q, options = options q,
                        answer = answer q, category = category q,
                        subCategory = subCategory q, explanation = explanation q\<rparr>)
                 (questions s') =
               take (nat (cfg_count config)) (sort_random filtered) \<and>
             int (length (questions s')) = min (cfg_count config) (int (length filtered)) \<and>
             (\<forall>q \<in> set (questions s').
                userAnswer q = None \<and> showAnswer q = False \<and>
                (\<exists>b \<in> set filtered.
                   qid q = qid b \<and> question q = question b \<and> options q = options b \<and>
                   answer q = answer b \<and> category q = category b \<and>
                   subCategory q = subCategory b \<and> explanation q = explanation b)) \<and>
             testDurationMinutes s' = \<lceil>(of_int (cfg_count config) :: rat) * (12 / 10)\<rceil> \<and>
             currentQuestionIndex s' = 0 \<and> isTestRunning s' \<and> finalResults s' = None \<and>
             startTime s' = now)"
proof -
  let ?f = "filteredQuestions config (allQuestions s)"
  let ?s' = "startQuiz sort_random now config s"
  let ?content = "\<lambda>q :: session_question.
      \<lparr>qid = qid q, question = question q, options = options q,
       answer = answer q, category = category q,
       subCategory = subCategory q, explanation = explanation q\<rparr>"
  have qs: "questions ?s' = map new_session_question (take (nat (cfg_count config)) (sort_random ?f))"
    using assms(1) by (simp add: startQuiz_def Let_def slice0_nonneg)
  have content: "map ?content (questions ?s') = take (nat (cfg_count config)) (sort_random ?f)"
    unfolding qs by (simp add: comp_def new_session_question_content(1))
  from assms(2) have len: "length (sort_random ?f) = length ?f"
    by (rule mset_eq_length)
  from assms(2) have set_eq: "set (sort_random ?f) = set ?f"
    by (rule mset_eq_setD)
  have l: "int (length (questions ?s')) = min (cfg_count config) (int (length ?f))"
  proof -
    have "length (questions ?s') = min (length ?f) (nat (cfg_count config))"
      by (simp add: qs len)
    with assms(1) show ?thesis by linarith
  qed
  have each: "userAnswer q = None \<and> showAnswer q = False \<and>
                (\<exists>b \<in> set ?f.
                   qid q = qid b \<and> question q = question b \<and> options q = options b \<and>
                   answer q = answer b \<and> category q = category b \<and>
                   subCategory q = subCategory b \<and> explanation q = explanation b)"
    if "q \<in> set (questions ?s')" for q
  proof -
    from that obtain b where b: "b \<in> set (take (nat (cfg_count config)) (sort_random ?f))"
      and q: "q = new_session_question b"
      unfolding qs by auto
    from b have "b \<in> set (sort_random ?f)" by (rule in_set_takeD)
    with set_eq have mem: "b \<in> set ?f" by simp
    have "qid q = qid b \<and> question q = question b \<and> options q = options b \<and>
          answer q = answer b \<and> category q = category b \<and>
          subCategory q = subCategory b \<and> explanation q = explanation b"
      unfolding q by (simp add: new_session_question_def)
    moreover have "userAnswer q = None \<and> showAnswer q = False"
      unfolding q by (simp add: new_session_question_content)
    ultimately show ?thesis using mem by blast
  qed
  have rest: "testDurationMinutes ?s' = \<lceil>(of_int (cfg_count config) :: rat) * (12 / 10)\<rceil> \<and>
             currentQuestionIndex ?s' = 0 \<and> isTestRunning ?s' \<and> finalResults ?s' = None \<and>
             startTime ?s' = now"
    by (simp add: startQuiz_def Let_def)
  have filt: "(cfg_type config = ''subject'' \<longrightarrow>
                ?f = filter (\<lambda>q. category q = cfg_value config) (allQuestions s)) \<and>
             (cfg_type config = ''paper'' \<longrightarrow>
                ?f = filter (\<lambda>q. subCategory q = cfg_value config) (allQuestions s)) \<and>
             (cfg_type config \<noteq> ''subject'' \<and> cfg_type config \<noteq> ''paper'' \<longrightarrow>
                ?f = allQuestions s)"
    by (simp add: filteredQuestions_def)
  from filt qs content l each rest show ?thesis
    unfolding Let_def by blast
qed

lemma example_bank_filtered:
  "filteredQuestions (subject_config ''Options'' 5)
     (allQuestions (loadQuestions example_bank initial_store)) =
   [example_bank_question 1 (Js_string ''Options'') (Js_string ''Paper 1''),
    example_bank_question 3 (Js_string ''Options'') (Js_string ''Paper 2''),
    example_bank_question 4 (Js_string ''Options'') Js_undefined]"
  by (simp add: filteredQuestions_def subject_config_def loadQuestions_def example_bank_def
        example_bank_question_def)

theorem startQuiz_sample_witness:
  "length (filteredQuestions (subject_config ''Options'' 5)
             (allQuestions (loadQuestions example_bank initial_store))) = 3 \<and>
   length (questions options_session) = 3 \<and>
   testDurationMinutes options_session = 6 \<and>
   map (\<lambda>q. (qid q, question q, options q, answer q, category q, subCategory q,
              explanation q, userAnswer q, showAnswer q)) (questions options_session) =
     [(4, ''Q'', [''A'', ''B'', ''''], ''A'', Js_string ''Options'', Js_undefined,
       None, None, False),
      (3, ''Q'', [''A'', ''B'', ''''], ''A'', Js_string ''Options'', Js_string ''Paper 2'',
       None, None, False),
      (1, ''Q'', [''A'', ''B'', ''''], ''A'', Js_string ''Options'', Js_string ''Paper 1'',
       None, None, False)]"
proof -
  let ?s = "loadQuestions example_bank initial_store"
  let ?c = "subject_config ''Options'' 5"
  have c: "0 \<le> cfg_count ?c" by (simp add: subject_config_def)
  have m: "mset (rev (filteredQuestions ?c (allQuestions ?s))) =
           mset (filteredQuestions ?c (allQuestions ?s))"
    by simp
  have n: "cfg_count ?c = 5" by (simp add: subject_config_def)
  note sample = startQuiz_sample[of ?c rev ?s 1000, OF c m,
      unfolded Let_def options_session_def[symmetric] example_bank_filtered n]
  from sample
  have "map (\<lambda>q. \<lparr>qid = qid q, question = question q, options = options q,
                        answer = answer q, category = category q,
                        subCategory = subCategory q, explanation = explanation q\<rparr>)
                 (questions options_session) =
        take (nat 5)
          (rev [example_bank_question 1 (Js_string ''Options'') (Js_string ''Paper 1''),
                example_bank_question 3 (Js_string ''Options'') (Js_string ''Paper 2''),
                example_bank_question 4 (Js_string ''Options'') Js_undefined])"
    by (elim conjE) assumption
  then have content: "map (\<lambda>q. (qid q, question q, options q, answer q, category q,
                        subCategory q, explanation q)) (questions options_session) =
        [(4, ''Q'', [''A'', ''B'', ''''], ''A'', Js_string ''Options'', Js_undefined, None),
         (3, ''Q'', [''A'', ''B'', ''''], ''A'', Js_string ''Options'', Js_string ''Paper 2'', None),
         (1, ''Q'', [''A'', ''B'', ''''], ''A'', Js_string ''Options'', Js_string ''Paper 1'', None)]"
    by (auto simp: example_bank_question_def)
  from sample
  have flags: "\<forall>q \<in> set (questions options_session). userAnswer q = None \<and> showAnswer q = False"
    by (elim conjE) blast
  from sample have "testDurationMinutes options_session = \<lceil>rat_of_int 5 * (12 / 10)\<rceil>"
    by (elim conjE) assumption
  then have dur: "testDurationMinutes options_session = 6"
    by simp
  from content have len: "length (questions options_session) = 3"
    by (auto dest: arg_cong[where f = length])
  then obtain q1 q2 q3 where qs: "questions options_session = [q1, q2, q3]"
    by (auto simp: length_Suc_conv numeral_3_eq_3)
  from content flags have "map (\<lambda>q. (qid q, question q, options q, answer q, category q, subCategory q,
              explanation q, userAnswer q, showAnswer q)) (questions options_session) =
     [(4, ''Q'', [''A'', ''B'', ''''], ''A'', Js_string ''Options'', Js_undefined,
       None, None, False),
      (3, ''Q'', [''A'', ''B'', ''''], ''A'', Js_string ''Options'', Js_string ''Paper 2'',
       None, None, False),
      (1, ''Q'', [''A'', ''B'', ''''], ''A'', Js_string ''Options'', Js_string ''Paper 1'',
       None, None, False)]"
    unfolding qs by simp
  with len dur show ?thesis
    by (simp add: example_bank_filtered)
qed

lemma maxQuestions_filtered:
  "maxQuestions h allQ = length (filteredQuestions (handleStartQuiz_config h) allQ)"
  by (simp add: maxQuestions_def filteredQuestions_def handleStartQuiz_config_def)

text \<open>
  Claim C5, as the code has it. \<open>startQuiz\<close> never fails: for a config whose filter matches
  no question it assigns no questions and still sets \<open>isTestRunning\<close>. The refusal is in
  its caller: when the selection of the home page matches no question the Start button is
  disabled, and a click leaves the store as it is.
\<close>

theorem startQuiz_no_questions:
  "(filteredQuestions config (allQuestions s) = [] \<and> sort_random [] = [] \<longrightarrow>
      questions (startQuiz sort_random now config s) = [] \<and>
      isTestRunning (startQuiz sort_random now config s)) \<and>
   (filteredQuestions (handleStartQuiz_config h) (allQuestions s) = [] \<longrightarrow>
      start_disabled h (allQuestions s) \<and> click_Start sort_random now h s = s)"
proof -
  have 1: "questions (startQuiz sort_random now config s) = [] \<and>
      isTestRunning (startQuiz sort_random now config s)"
    if "filteredQuestions config (allQuestions s) = []" and "sort_random [] = []"
    using that by (simp add: startQuiz_def Let_def slice0_def)
  have 2: "start_disabled h (allQuestions s) \<and> click_Start sort_random now h s = s"
    if "filteredQuestions (handleStartQuiz_config h) (allQuestions s) = []"
    using that by (simp add: start_disabled_def click_Start_def maxQuestions_filtered)
  from 1 2 show ?thesis by blast
qed

theorem startQuiz_no_questions_witness:
  "filteredQuestions (handleStartQuiz_config bonds_page)
     (allQuestions (loadQuestions example_bank initial_store)) = [] \<and>
   questions (startQuiz rev 0 (handleStartQuiz_config bonds_page)
                (loadQuestions example_bank initial_store)) = [] \<and>
   isTestRunning (startQuiz rev 0 (handleStartQuiz_config bonds_page)
                (loadQuestions example_bank initial_store)) \<and>
   click_Start rev 0 bonds_page (loadQuestions example_bank initial_store) =
     loadQuestions example_bank initial_store"
proof -
  have f: "filteredQuestions (handleStartQuiz_config bonds_page)
     (allQuestions (loadQuestions example_bank initial_store)) = []"
    by (simp add: filteredQuestions_def handleStartQuiz_config_def bonds_page_def
          loadQuestions_def example_bank_def example_bank_question_def)
  have r: "rev [] = ([] :: bank_question list)" by simp
  from startQuiz_no_questions[of "handleStartQuiz_config bonds_page"
      "loadQuestions example_bank initial_store" rev 0 bonds_page] f r
  show ?thesis by blast
qed

text \<open>
  The store action enters the running state with no questions: no question of the bank
  has the subject \<open>Bonds\<close>.
\<close>

theorem startQuiz_no_questions_counterexample:
  "filteredQuestions (subject_config ''Bonds'' 5)
     (allQuestions (loadQuestions example_bank initial_store)) = [] \<and>
   isTestRunning (startQuiz (\<lambda>xs. xs) 0 (subject_config ''Bonds'' 5)
                    (loadQuestions example_bank initial_store)) \<and>
   questions (startQuiz (\<lambda>xs. xs) 0 (subject_config ''Bonds'' 5)
                    (loadQuestions example_bank initial_store)) = []"
  by (simp add: startQuiz_def filteredQuestions_def subject_config_def loadQuestions_def
        example_bank_def example_bank_question_def slice0_def Let_def)

subsection \<open>Loading the question file\<close>

text \<open>
  Claim C8, as the code has it. \<open>handleFileChange\<close> loads a file exactly when it is a JSON
  file whose text parses to a non-empty array, and then \<open>allQuestions\<close> becomes the whole
  parsed array and the error message is cleared; no record of the array is inspected.
  In every other case the store is untouched and an error message is set.
\<close>

theorem handleFileChange_load:
  "(\<forall>qs. f = json_upload qs \<and> qs \<noteq> [] \<longrightarrow>
      handleFileChange f (s, e) = (s\<lparr>allQuestions := qs\<rparr>, [])) \<and>
   ((\<forall>qs. f = json_upload qs \<longrightarrow> qs = []) \<longrightarrow>
      fst (handleFileChange f (s, e)) = s \<and> snd (handleFileChange f (s, e)) \<noteq> [])"
proof -
  have 1: "handleFileChange (json_upload qs) (s, e) = (s\<lparr>allQuestions := qs\<rparr>, [])"
    if "qs \<noteq> []" for qs
    using that by (simp add: handleFileChange_def json_upload_def loadQuestions_def)
  have 2: "fst (handleFileChange f (s, e)) = s \<and> snd (handleFileChange f (s, e)) \<noteq> []"
    if r: "\<forall>qs. f = json_upload qs \<longrightarrow> qs = []"
  proof (cases f)
    case None
    then show ?thesis by (simp add: handleFileChange_def)
  next
    case (Some file')
    show ?thesis
    proof (cases "file_type file' = ''application/json''")
      case False
      with Some show ?thesis by (simp add: handleFileChange_def)
    next
      case True
      show ?thesis
      proof (cases "parsed file'")
        case None
        with Some True show ?thesis by (simp add: handleFileChange_def)
      next
        case (Some j)
        show ?thesis
        proof (cases j)
          case JOther
          with Some \<open>f = Some file'\<close> True show ?thesis by (simp add: handleFileChange_def)
        next
          case (JArray qs)
          with Some True \<open>f = Some file'\<close> have "f = json_upload qs"
            by (simp add: json_upload_def)
          with r have "qs = []" by blast
          with JArray Some True \<open>f = Some file'\<close> show ?thesis
            by (simp add: handleFileChange_def)
        qed
      qed
    qed
  qed
  from 1 2 show ?thesis by blast
qed

theorem handleFileChange_load_witness:
  "handleFileChange (json_upload example_bank) (initial_store, ''old'') =
     (initial_store\<lparr>allQuestions := example_bank\<rparr>, []) \<and>
   fst (handleFileChange (json_upload []) (loadQuestions example_bank initial_store, [])) =
     loadQuestions example_bank initial_store \<and>
   snd (handleFileChange (json_upload []) (loadQuestions example_bank initial_store, [])) \<noteq> []"
proof -
  have n: "example_bank \<noteq> []" by (simp add: example_bank_def)
  have e: "\<forall>qs. json_upload [] = json_upload qs \<longrightarrow> qs = []"
    by (simp add: json_upload_def)
  from handleFileChange_load[of "json_upload example_bank" initial_store "''old''"]
    handleFileChange_load[of "json_upload []" "loadQuestions example_bank initial_store" "[]"]
    n e
  show ?thesis by blast
qed

text \<open>
  A record with no options, whose answer is therefore none of its options, is loaded.
\<close>

theorem handleFileChange_load_counterexample:
  "\<not> valid_corpus [malformed_question] \<and>
   handleFileChange (json_upload [malformed_question]) (initial_store, []) =
     (initial_store\<lparr>allQuestions := [malformed_question]\<rparr>, [])"
  by (simp add: valid_corpus_def well_formed_def malformed_question_def handleFileChange_def
        json_upload_def loadQuestions_def)

subsection \<open>Selecting an answer\<close>

lemma selectAnswer_questions:
  "questions (selectAnswer i a s) =
     map (\<lambda>q. if qid q = i then q\<lparr>userAnswer := Some a\<rparr> else q) (questions s)"
  by (simp add: selectAnswer_def)

lemma one_question_session_questions: "questions one_question_session = [the_question]"
  by (simp add: one_question_session_def the_question_def startQuiz_def loadQuestions_def
        initial_store_def all_config_def filteredQuestions_def slice0_def Let_def)

text \<open>
  Claim C2, as the code has it. The lock is in \<open>handleSelectAnswer\<close>, the caller of the
  store action \<open>selectAnswer\<close>. After \<open>handleSelectAnswer\<close> has given an unanswered question
  of the session a non-empty answer, every question of the session with that id has this
  answer, and \<open>handleSelectAnswer\<close> on such a question, with any option, leaves the state
  as it is: the first answer stays.
\<close>

theorem handleSelectAnswer_first_final:
  assumes "q \<in> set (questions s)" and "\<not> js_truthy (userAnswer q)" and "a \<noteq> []"
  shows "(let s1 = handleSelectAnswer q a s in
            q\<lparr>userAnswer := Some a\<rparr> \<in> set (questions s1) \<and>
            (\<forall>q' \<in> set (questions s1). qid q' = qid q \<longrightarrow>
               userAnswer q' = Some a \<and> (\<forall>b. handleSelectAnswer q' b s1 = s1)))"
proof -
  let ?s1 = "handleSelectAnswer q a s"
  from assms(2) have s1: "?s1 = selectAnswer (qid q) a s"
    by (simp add: handleSelectAnswer_def)
  have mem: "q\<lparr>userAnswer := Some a\<rparr> \<in> set (questions ?s1)"
    using assms(1) unfolding s1 selectAnswer_questions by force
  have fin: "userAnswer q' = Some a \<and> (\<forall>b. handleSelectAnswer q' b ?s1 = ?s1)"
    if "q' \<in> set (questions ?s1)" and "qid q' = qid q" for q'
  proof -
    from that have u: "userAnswer q' = Some a"
      unfolding s1 selectAnswer_questions by auto
    with assms(3) have "js_truthy (userAnswer q')"
      by (simp add: js_truthy_def)
    then have "handleSelectAnswer q' b ?s1 = ?s1" for b
      by (simp add: handleSelectAnswer_def)
    with u show ?thesis by simp
  qed
  from mem fin show ?thesis unfolding Let_def by blast
qed

theorem handleSelectAnswer_first_final_witness:
  "the_question \<in> set (questions one_question_session) \<and>
   \<not> js_truthy (userAnswer the_question) \<and>
   questions (handleSelectAnswer the_question ''A'' one_question_session) =
     [the_question\<lparr>userAnswer := Some ''A''\<rparr>] \<and>
   handleSelectAnswer (the_question\<lparr>userAnswer := Some ''A''\<rparr>) ''B''
     (handleSelectAnswer the_question ''A'' one_question_session) =
   handleSelectAnswer the_question ''A'' one_question_session"
proof -
  have m: "the_question \<in> set (questions one_question_session)"
    by (simp add: one_question_session_questions)
  have u: "\<not> js_truthy (userAnswer the_question)"
    by (simp add: the_question_def new_session_question_def js_truthy_def)
  have a: "''A'' \<noteq> []" by simp
  have q: "questions (handleSelectAnswer the_question ''A'' one_question_session) =
     [the_question\<lparr>userAnswer := Some ''A''\<rparr>]"
    using u by (simp add: handleSelectAnswer_def selectAnswer_questions one_question_session_questions)
  from handleSelectAnswer_first_final[OF m u a] m u q show ?thesis
    unfolding Let_def by simp
qed

text \<open>
  The store action itself overwrites an answer, and so does \<open>handleSelectAnswer\<close> when the
  first answer was the empty option, which is not null but falsy.
\<close>

theorem handleSelectAnswer_first_final_counterexample:
  "questions one_question_session = [the_question] \<and>
   qid the_question = 1 \<and>
   map userAnswer (questions (selectAnswer 1 ''A'' one_question_session)) = [Some ''A''] \<and>
   map userAnswer (questions (selectAnswer 1 ''B'' (selectAnswer 1 ''A'' one_question_session))) =
     [Some ''B''] \<and>
   map userAnswer (questions (handleSelectAnswer the_question '''' one_question_session)) =
     [Some ''''] \<and>
   map userAnswer (questions (handleSelectAnswer (the_question\<lparr>userAnswer := Some ''''\<rparr>) ''B''
      (handleSelectAnswer the_question '''' one_question_session))) = [Some ''B'']"
  by (simp add: one_question_session_questions selectAnswer_questions handleSelectAnswer_def
        the_question_def new_session_question_def example_bank_question_def js_truthy_def)

subsection \<open>Navigation\<close>

lemma reachable_index_ok: "reachable s \<Longrightarrow> index_ok s"
proof (induction rule: reachable.induct)
  case init
  show ?case by (simp add: index_ok_def initial_store_def)
next
  case (load s qs)
  then show ?case by (simp add: index_ok_def loadQuestions_def)
next
  case (start s sort_random now config)
  show ?case by (simp add: index_ok_def startQuiz_def Let_def)
next
  case (select s questionId answer')
  then show ?case by (simp add: index_ok_def selectAnswer_def)
next
  case (check s questionId)
  then show ?case by (simp add: index_ok_def checkAnswer_def)
next
  case (navigate s index)
  then show ?case by (simp add: index_ok_def navigateToQuestion_def)
next
  case (submit s)
  then show ?case by (simp add: index_ok_def submitTest_def Let_def)
next
  case (reset s)
  show ?case by (simp add: index_ok_def reset_def)
qed

text \<open>
  Claim C6. In every state of the store that the actions can reach and whose \<open>questions\<close>
  are not empty, \<open>navigateToQuestion(index)\<close> sets \<open>currentQuestionIndex = index\<close> when
  \<open>0 <= index < questions.length\<close> and changes nothing otherwise, and afterwards
  \<open>0 <= currentQuestionIndex < questions.length\<close>.
\<close>

theorem navigateToQuestion_in_range:
  assumes "reachable s" and "questions s \<noteq> []"
  shows "(0 \<le> i \<and> i < int (length (questions s)) \<longrightarrow>
            navigateToQuestion i s = s\<lparr>currentQuestionIndex := i\<rparr>) \<and>
         (\<not> (0 \<le> i \<and> i < int (length (questions s))) \<longrightarrow> navigateToQuestion i s = s) \<and>
         0 \<le> currentQuestionIndex (navigateToQuestion i s) \<and>
         currentQuestionIndex (navigateToQuestion i s)
           < int (length (questions (navigateToQuestion i s)))"
proof -
  from assms(1) have "index_ok s" by (rule reachable_index_ok)
  with assms(2) have "0 \<le> currentQuestionIndex s \<and>
      currentQuestionIndex s < int (length (questions s))"
    by (auto simp: index_ok_def)
  then show ?thesis
    by (simp add: navigateToQuestion_def)
qed

theorem navigateToQuestion_in_range_witness:
  "reachable one_question_session \<and> questions one_question_session \<noteq> [] \<and>
   navigateToQuestion 0 one_question_session = one_question_session\<lparr>currentQuestionIndex := 0\<rparr> \<and>
   navigateToQuestion 1 one_question_session = one_question_session \<and>
   navigateToQuestion (- 1) one_question_session = one_question_session \<and>
   currentQuestionIndex (navigateToQuestion 1 one_question_session) = 0"
proof -
  have r: "reachable one_question_session"
    unfolding one_question_session_def by (intro reachable.start reachable.load reachable.init)
  have q: "questions one_question_session \<noteq> []"
    by (simp add: one_question_session_def startQuiz_def loadQuestions_def initial_store_def
          all_config_def filteredQuestions_def slice0_def Let_def)
  have l: "length (questions one_question_session) = 1"
    by (simp add: one_question_session_def startQuiz_def loadQuestions_def initial_store_def
          all_config_def filteredQuestions_def slice0_def Let_def)
  have c: "currentQuestionIndex one_question_session = 0"
    by (simp add: one_question_session_def startQuiz_def Let_def)
  from navigateToQuestion_in_range[OF r q, of 0] navigateToQuestion_in_range[OF r q, of 1]
    navigateToQuestion_in_range[OF r q, of "- 1"] r q l c
  show ?thesis by simp
qed

subsection \<open>Submitting\<close>

text \<open>
  Claim C4, as the code has it. \<open>submitTest\<close> has no guard: in every state it stores the
  report of the current questions and clears \<open>isTestRunning\<close>. A second call right after
  the first recomputes an equal report and leaves the state as it is.
\<close>

theorem submitTest_unguarded:
  "submitTest s =
     s\<lparr>finalResults := Some (calculateAnalysis (questions s)), isTestRunning := False\<rparr> \<and>
   submitTest (submitTest s) = submitTest s"
  by (simp add: submitTest_def Let_def)

text \<open>
  Called when no quiz is running, after \<open>reset\<close>, \<open>submitTest\<close> is not a no-op: it stores
  the report of the empty list of questions.
\<close>

theorem submitTest_unguarded_counterexample:
  "isTestRunning (reset initial_store) = False \<and>
   finalResults (reset initial_store) = None \<and>
   finalResults (submitTest (reset initial_store)) = Some (calculateAnalysis []) \<and>
   submitTest (reset initial_store) \<noteq> reset initial_store"
proof -
  have 1: "finalResults (reset initial_store) = None"
    by (simp add: reset_def)
  have 2: "finalResults (submitTest (reset initial_store)) = Some (calculateAnalysis [])"
    by (simp add: submitTest_def reset_def Let_def)
  from 1 2 have "submitTest (reset initial_store) \<noteq> reset initial_store"
    by (metis option.distinct(1))
  with 1 2 show ?thesis by (simp add: reset_def)
qed

subsection \<open>Reset\<close>

text \<open>
  Claim C9. \<open>reset\<close> empties \<open>questions\<close>, sets \<open>currentQuestionIndex\<close> to 0, \<open>isTestRunning\<close>
  to false, \<open>startTime\<close> to 0, \<open>finalResults\<close> to null and \<open>testDurationMinutes\<close> to 0, the
  values of the initial store, and leaves \<open>allQuestions\<close> as it was.
\<close>

theorem reset_clears_session:
  "questions (reset s) = [] \<and> currentQuestionIndex (reset s) = 0 \<and>
   isTestRunning (reset s) = False \<and> startTime (reset s) = 0 \<and>
   finalResults (reset s) = None \<and> testDurationMinutes (reset s) = 0 \<and>
   allQuestions (reset s) = allQuestions s \<and>
   reset s = initial_store\<lparr>allQuestions := allQuestions s\<rparr>"
  by (simp add: reset_def initial_store_def)

end
